theory Spec2Isabelle
  imports Complex_Main
begin

section \<open>The Cortex dashboard: session controller and recalibration insights\<close>

text \<open>
  The verified code is the \<^verbatim>\<open>App\<close> component of the Cortex front end: seven pieces of
  component state (\<^verbatim>\<open>loading\<close>, \<^verbatim>\<open>report\<close>, \<^verbatim>\<open>file\<close>, \<^verbatim>\<open>selectedCols\<close>,
  \<^verbatim>\<open>selectedTarget\<close>, \<^verbatim>\<open>insights\<close>, \<^verbatim>\<open>openDropdown\<close>) and the handlers
  \<^verbatim>\<open>processFile\<close>, \<^verbatim>\<open>handleRefine\<close>, \<^verbatim>\<open>toggleColumn\<close>, \<^verbatim>\<open>handleTargetChange\<close> and
  \<^verbatim>\<open>toggleDropdown\<close> that write it. A handler becomes a function from the session to the
  new session. The two asynchronous handlers are split at their \<^verbatim>\<open>await\<close>: the part before
  it reads the state of the render that created the handler and issues the request, the part
  after it runs when the request settles and writes into whatever the state is by then.
\<close>

subsection \<open>JavaScript numbers and their decimal rendering\<close>

text \<open>
  A JavaScript number is an IEEE 754 double: a finite one is modelled by its exact value,
  a rational number, and there are \<open>NaN\<close> and the two infinities. The two zeros are not
  told apart; nothing in the code depends on the sign of a zero.
\<close>

datatype jsnum = Finite rat | NaN | PosInfinity | NegInfinity

text \<open>
  Rounding of a real to the nearest double, ties to the even significand. A positive
  value is scaled by powers of two into \<open>[2\<^sup>5\<^sup>2, 2\<^sup>5\<^sup>3)\<close>, where doubles are the integers,
  rounded to the nearest integer and scaled back; scaling up stops at \<open>2\<^sup>1\<^sup>0\<^sup>7\<^sup>4\<close>, the
  spacing of the subnormal numbers. A result of \<open>2\<^sup>1\<^sup>0\<^sup>2\<^sup>4\<close> or more is an infinity.
\<close>

definition round_half_even :: "rat \<Rightarrow> int" where
  "round_half_even x =
     (let f = \<lfloor>x\<rfloor>; d = x - of_int f
      in if d < 1 / 2 then f else if 1 / 2 < d then f + 1 else if even f then f else f + 1)"

function round_large :: "rat \<Rightarrow> rat" where
  "round_large x =
     (if x < 9007199254740992 then of_int (round_half_even x) else 2 * round_large (x / 2))"
  by pat_completeness auto
termination
proof (relation "measure (\<lambda>x. nat \<lfloor>x\<rfloor>)")
  show "wf (measure (\<lambda>x. nat \<lfloor>x\<rfloor>))"
    by simp
next
  fix x :: rat
  assume "\<not> x < 9007199254740992"
  then have x: "9007199254740992 \<le> x"
    by simp
  have "of_int \<lfloor>x / 2\<rfloor> \<le> x / 2"
    by linarith
  moreover have "x - 1 < of_int \<lfloor>x\<rfloor>"
    by linarith
  ultimately have "(of_int \<lfloor>x / 2\<rfloor> :: rat) < of_int \<lfloor>x\<rfloor>"
    using x by linarith
  then have "\<lfloor>x / 2\<rfloor> < \<lfloor>x\<rfloor>"
    by simp
  moreover have "0 < \<lfloor>x\<rfloor>"
    using x by linarith
  ultimately show "(x / 2, x) \<in> measure (\<lambda>x. nat \<lfloor>x\<rfloor>)"
    by simp
qed

function round_small :: "rat \<Rightarrow> int \<Rightarrow> rat" where
  "round_small x e =
     (if 4503599627370496 \<le> x \<or> e \<le> - 1074 then of_int (round_half_even x)
      else round_small (2 * x) (e - 1) / 2)"
  by pat_completeness auto
termination
  by (relation "measure (\<lambda>(x, e). nat (e + 1074))") auto

declare round_large.simps [simp del] round_small.simps [simp del]

definition round_double :: "rat \<Rightarrow> jsnum" where
  "round_double x =
     (if x = 0 then Finite 0
      else
        let a = \<bar>x\<bar>;
            r = (if 9007199254740992 \<le> a then round_large a else round_small a 0)
        in if 179769313486231590772930519078902473361797697894230657273430081157732675805500963132708477322407536021120113879871393357658789768814416622492847430639474124377767893424865485276302219601246094119453082952085005768838150682342462881473913110540827237163350510684586298239947245938479716304835356329624224137216 \<le> r then (if x < 0 then NegInfinity else PosInfinity)
           else Finite (if x < 0 then - r else r))"

text \<open>
  The subtraction \<^verbatim>\<open>a - b\<close> of two numbers: the exact difference of two finite doubles,
  rounded to a double.
\<close>

fun jsnum_minus :: "jsnum \<Rightarrow> jsnum \<Rightarrow> jsnum" where
  "jsnum_minus NaN y = NaN"
| "jsnum_minus (Finite a) NaN = NaN"
| "jsnum_minus PosInfinity NaN = NaN"
| "jsnum_minus NegInfinity NaN = NaN"
| "jsnum_minus (Finite a) (Finite b) = round_double (a - b)"
| "jsnum_minus (Finite a) PosInfinity = NegInfinity"
| "jsnum_minus (Finite a) NegInfinity = PosInfinity"
| "jsnum_minus PosInfinity (Finite b) = PosInfinity"
| "jsnum_minus PosInfinity NegInfinity = PosInfinity"
| "jsnum_minus PosInfinity PosInfinity = NaN"
| "jsnum_minus NegInfinity (Finite b) = NegInfinity"
| "jsnum_minus NegInfinity PosInfinity = NegInfinity"
| "jsnum_minus NegInfinity NegInfinity = NaN"

text \<open>The comparisons \<^verbatim>\<open>x > 0\<close> and \<^verbatim>\<open>x < 0\<close>: false on \<open>NaN\<close>.\<close>

fun gt_zero :: "jsnum \<Rightarrow> bool" where
  "gt_zero (Finite r) = (0 < r)"
| "gt_zero NaN = False"
| "gt_zero PosInfinity = True"
| "gt_zero NegInfinity = False"

fun lt_zero :: "jsnum \<Rightarrow> bool" where
  "lt_zero (Finite r) = (r < 0)"
| "lt_zero NaN = False"
| "lt_zero PosInfinity = False"
| "lt_zero NegInfinity = True"

definition digit_char :: "nat \<Rightarrow> char" where
  "digit_char d = char_of (48 + d)"

text \<open>The decimal digits of a number, as a template literal prints them.\<close>

fun decimal_of_nat :: "nat \<Rightarrow> string" where
  "decimal_of_nat n =
     (if 10 \<le> n then decimal_of_nat (n div 10) @ [digit_char (n mod 10)] else [digit_char n])"

declare decimal_of_nat.simps [simp del]

definition decimal_of_int :: "int \<Rightarrow> string" where
  "decimal_of_int i = (if i < 0 then ''-'' @ decimal_of_nat (nat (- i)) else decimal_of_nat (nat i))"

text \<open>
  \<^verbatim>\<open>x.toFixed(1)\<close>. A value that is not finite is printed by name. For a finite one, on
  the fixed-notation range \<open>\<bar>x\<bar> < 10\<^sup>2\<^sup>1\<close>, the sign is split off, \<open>n\<close> is the integer with
  \<open>n / 10\<close> nearest to \<open>\<bar>x\<bar>\<close> (the larger one on a tie), and the digits of \<open>n\<close> are printed
  with a point before the last one. Beyond that range JavaScript switches to exponent
  notation, which is outside this model.
\<close>

definition tenths :: "rat \<Rightarrow> nat" where
  "tenths r = nat \<lfloor>\<bar>r\<bar> * 10 + 1 / 2\<rfloor>"

fun toFixed1 :: "jsnum \<Rightarrow> string" where
  "toFixed1 NaN = ''NaN''"
| "toFixed1 PosInfinity = ''Infinity''"
| "toFixed1 NegInfinity = ''-Infinity''"
| "toFixed1 (Finite r) =
     (if r < 0 then ''-'' else '''') @
     decimal_of_nat (tenths r div 10) @ ''.'' @ [digit_char (tenths r mod 10)]"

text \<open>
  The conversion of a string to a number that \<^verbatim>\<open>diff > 0\<close> performs on the string
  \<^verbatim>\<open>diff\<close>, for the strings \<open>toFixed1\<close> produces: \<^verbatim>\<open>Infinity\<close> with an optional minus
  sign, or an optional minus sign, decimal digits, a point, decimal digits. Any other
  string is read as \<open>NaN\<close> here.
\<close>

definition digit_val :: "char \<Rightarrow> nat option" where
  "digit_val c =
     (if 48 \<le> (of_char c :: nat) \<and> (of_char c :: nat) \<le> 57 then Some (of_char c - 48) else None)"

fun nat_of_digits :: "nat \<Rightarrow> string \<Rightarrow> nat option" where
  "nat_of_digits acc [] = Some acc"
| "nat_of_digits acc (c # cs) =
     (case digit_val c of None \<Rightarrow> None | Some d \<Rightarrow> nat_of_digits (10 * acc + d) cs)"

definition unsigned_decimal :: "string \<Rightarrow> rat option" where
  "unsigned_decimal s =
     (let ip = takeWhile (\<lambda>c. c \<noteq> CHR ''.'') s;
          fp = drop (length ip + 1) s
      in if ip = [] \<or> fp = [] \<or> length s \<noteq> length ip + 1 + length fp then None
         else (case (nat_of_digits 0 ip, nat_of_digits 0 fp) of
                 (Some i, Some f) \<Rightarrow> Some (of_nat i + of_nat f / 10 ^ length fp)
               | _ \<Rightarrow> None))"

definition toNumber :: "string \<Rightarrow> jsnum" where
  "toNumber s =
     (case s of
        [] \<Rightarrow> NaN
      | c # t \<Rightarrow>
          if c = CHR ''-'' then
            (if t = ''Infinity'' then NegInfinity
             else (case unsigned_decimal t of None \<Rightarrow> NaN | Some v \<Rightarrow> Finite (- v)))
          else if s = ''Infinity'' then PosInfinity
          else (case unsigned_decimal s of None \<Rightarrow> NaN | Some v \<Rightarrow> Finite v))"

subsection \<open>Reports, insight entries and the session\<close>

text \<open>
  The field \<^verbatim>\<open>stats.accuracy\<close> of a response, by how the code reads it: \<open>Absent\<close> is a
  falsy value without a numeric reading (\<^verbatim>\<open>undefined\<close>, \<^verbatim>\<open>null\<close>, the empty string);
  \<open>Numeric r\<close> is a number written as the decimal literal of value \<open>r\<close>, or a string that
  starts with that literal; \<open>InfinityText\<close> and \<open>NegInfinityText\<close> are strings that start
  with \<^verbatim>\<open>Infinity\<close> and \<^verbatim>\<open>-Infinity\<close>; \<open>NonNumeric\<close> is any other truthy value, such as the
  string \<^verbatim>\<open>N/A\<close>.
\<close>

datatype jsvalue = Absent | Numeric rat | InfinityText | NegInfinityText | NonNumeric

text \<open>
  \<^verbatim>\<open>parseFloat(v)\<close>, which reads a decimal literal as the nearest double, and
  \<^verbatim>\<open>v || 0\<close>.
\<close>

fun parseFloat :: "jsvalue \<Rightarrow> jsnum" where
  "parseFloat (Numeric r) = round_double r"
| "parseFloat InfinityText = PosInfinity"
| "parseFloat NegInfinityText = NegInfinity"
| "parseFloat Absent = NaN"
| "parseFloat NonNumeric = NaN"

fun or_zero :: "jsvalue \<Rightarrow> jsvalue" where
  "or_zero Absent = Numeric 0"
| "or_zero v = v"

record report_stats =
  accuracy :: jsvalue
  rows :: nat
  missing_before :: nat
  missing_after :: nat
  target_used :: string

record column_diagnostic =
  col_value :: string
  col_label :: string
  col_type :: string
  cardinality :: nat
  missing_pct :: rat

record report_analysis =
  column_diagnostics :: "column_diagnostic list"
  feature_importance :: "(string \<times> rat) list"
  health_data :: "(string \<times> nat) list"

record report =
  stats :: report_stats
  analysis :: report_analysis
  preview_data :: "(string \<times> string) list list"

record entry =
  entry_id :: nat
  trend :: string
  diff :: string
  timestamp :: string
  message :: string

text \<open>
  An uploaded file is an opaque handle, here its name. The state \<^verbatim>\<open>file\<close> is the field
  \<open>file'\<close> of the session, and the \<^verbatim>\<open>id\<close> of an entry is \<open>entry_id\<close>.
\<close>

type_synonym file_handle = string

record session =
  loading :: bool
  report :: "report option"
  file' :: "file_handle option"
  selectedCols :: "string list"
  selectedTarget :: "string option"
  insights :: "entry list"
  openDropdown :: "string option"

text \<open>The state of the first render: every \<^verbatim>\<open>useState\<close> initial value.\<close>

definition initial :: session where
  "initial = \<lparr>loading = False, report = None, file' = None, selectedCols = [],
     selectedTarget = None, insights = [], openDropdown = None\<rparr>"

text \<open>
  What the environment supplies: the outcome of \<^verbatim>\<open>axios.post\<close> (the promise rejects, or
  resolves with a response body), and the readings of \<^verbatim>\<open>Date.now()\<close> and
  \<^verbatim>\<open>toLocaleTimeString\<close> at the moment an entry is built.
\<close>

datatype response = Rejected | Resolved report

record clock =
  now :: nat
  timeString :: string

text \<open>The multipart form posted to \<^verbatim>\<open>/heal\<close>.\<close>

record request =
  form_file :: file_handle
  form_selected_columns :: "string list"
  form_target_column :: "string option"

subsection \<open>The synchronous handlers\<close>

definition toggleColumn :: "string \<Rightarrow> session \<Rightarrow> session" where
  "toggleColumn colValue s =
     s\<lparr>selectedCols :=
        (if colValue \<in> set (selectedCols s) then filter (\<lambda>c. c \<noteq> colValue) (selectedCols s)
         else selectedCols s @ [colValue])\<rparr>"

definition handleTargetChange :: "string \<Rightarrow> session \<Rightarrow> session" where
  "handleTargetChange newTarget s =
     s\<lparr>selectedTarget := Some newTarget,
       selectedCols := filter (\<lambda>c. c \<noteq> newTarget) (selectedCols s),
       openDropdown := None\<rparr>"


definition toggleDropdown :: "string \<Rightarrow> session \<Rightarrow> session" where
  "toggleDropdown name s =
     s\<lparr>openDropdown := (if openDropdown s = Some name then None else Some name)\<rparr>"

subsection \<open>Initial upload\<close>

text \<open>
  \<^verbatim>\<open>processFile\<close> up to its \<^verbatim>\<open>await\<close>: without a file it returns at once; otherwise it
  stores the file, raises \<^verbatim>\<open>loading\<close> and posts the file with an empty column selection.
\<close>

definition processFile_begin :: "file_handle option \<Rightarrow> session \<Rightarrow> session \<times> request option" where
  "processFile_begin uploadedFile s =
     (case uploadedFile of
        None \<Rightarrow> (s, None)
      | Some f \<Rightarrow>
          (s\<lparr>file' := Some f, loading := True\<rparr>,
           Some \<lparr>form_file = f, form_selected_columns = [], form_target_column = None\<rparr>))"

definition initEntry :: "clock \<Rightarrow> entry" where
  "initEntry clk =
     \<lparr>entry_id = now clk, trend = ''STABLE'', diff = ''INIT'', timestamp = timeString clk,
      message = ''Neural baseline established. Data vectors initialized and healed.''\<rparr>"

text \<open>
  \<^verbatim>\<open>processFile\<close> after the \<^verbatim>\<open>await\<close>. The second component is the text of the
  \<^verbatim>\<open>alert\<close>, if one is shown.
\<close>

definition processFile_end :: "clock \<Rightarrow> response \<Rightarrow> session \<Rightarrow> session \<times> string option" where
  "processFile_end clk res s =
     (case res of
        Rejected \<Rightarrow> (s\<lparr>loading := False\<rparr>, Some ''Analysis failed.'')
      | Resolved d \<Rightarrow>
          (s\<lparr>report := Some d,
             selectedCols :=
               filter (\<lambda>c. c \<noteq> target_used (stats d))
                 (map col_value (column_diagnostics (analysis d))),
             selectedTarget := Some (target_used (stats d)),
             insights := [initEntry clk],
             loading := False\<rparr>, None))"

text \<open>The whole handler, when nothing else happens while the request is in flight.\<close>

definition processFile :: "clock \<Rightarrow> file_handle option \<Rightarrow> response \<Rightarrow> session \<Rightarrow> session" where
  "processFile clk uploadedFile res s =
     (case processFile_begin uploadedFile s of
        (s', None) \<Rightarrow> s'
      | (s', Some rq) \<Rightarrow> fst (processFile_end clk res s'))"

subsection \<open>Recalibration\<close>

text \<open>\<^verbatim>\<open>!selectedTarget\<close>: the target is \<^verbatim>\<open>null\<close> or the empty string.\<close>

definition falsy :: "string option \<Rightarrow> bool" where
  "falsy t = (t = None \<or> t = Some [])"

text \<open>
  What the continuation of \<^verbatim>\<open>handleRefine\<close> still reads after the \<^verbatim>\<open>await\<close> from the
  render in which the handler was created: \<^verbatim>\<open>report\<close> and \<^verbatim>\<open>selectedCols\<close>.
\<close>

record captured =
  seen_report :: "report option"
  seen_selectedCols :: "string list"

definition handleRefine_begin :: "session \<Rightarrow> session \<times> (request \<times> captured) option" where
  "handleRefine_begin s =
     (case file' s of
        None \<Rightarrow> (s, None)
      | Some f \<Rightarrow>
          if falsy (selectedTarget s) then (s, None)
          else
            (s\<lparr>loading := True\<rparr>,
             Some (\<lparr>form_file = f, form_selected_columns = selectedCols s,
                     form_target_column = selectedTarget s\<rparr>,
                   \<lparr>seen_report = report s, seen_selectedCols = selectedCols s\<rparr>)))"

text \<open>\<^verbatim>\<open>parseFloat(report?.stats?.accuracy || 0)\<close>\<close>

definition prevAccuracy :: "report option \<Rightarrow> jsnum" where
  "prevAccuracy rep =
     parseFloat (or_zero (case rep of None \<Rightarrow> Absent | Some r \<Rightarrow> accuracy (stats r)))"

text \<open>\<^verbatim>\<open>parseFloat(res.data.stats.accuracy)\<close>\<close>

definition newAccuracy :: "report \<Rightarrow> jsnum" where
  "newAccuracy d = parseFloat (accuracy (stats d))"

text \<open>The string \<^verbatim>\<open>diff\<close>, and \<^verbatim>\<open>trend\<close>, \<^verbatim>\<open>prunedCount\<close>, \<^verbatim>\<open>dynamicMessage\<close>, \<^verbatim>\<open>newEntry\<close>.\<close>

definition diffOf :: "jsnum \<Rightarrow> jsnum \<Rightarrow> string" where
  "diffOf newAcc prevAcc = toFixed1 (jsnum_minus newAcc prevAcc)"

definition trendOf :: "string \<Rightarrow> string" where
  "trendOf d =
     (if gt_zero (toNumber d) then ''OPTIMIZED''
      else if lt_zero (toNumber d) then ''DEGRADED'' else ''STABLE'')"

definition prunedCount :: "report \<Rightarrow> string list \<Rightarrow> int" where
  "prunedCount rep cols =
     int (length (column_diagnostics (analysis rep))) - int (length cols)"

definition dynamicMessage :: "string \<Rightarrow> int \<Rightarrow> string" where
  "dynamicMessage d pruned =
     (if gt_zero (toNumber d) then
        ''Optimization successful. Pruning '' @ decimal_of_int pruned @
        '' noisy vectors enhanced the focus on primary predictors.''
      else if lt_zero (toNumber d) then
        ''Intelligence degradation detected. Removing features has limited the model's ability to map patterns in the data space.''
      else ''Model weights recalculated. System remains stable with the current feature set.'')"

definition diffLabel :: "string \<Rightarrow> string" where
  "diffLabel d = (if gt_zero (toNumber d) then ''+'' @ d @ ''%'' else d @ ''%'')"

definition newEntry :: "clock \<Rightarrow> string \<Rightarrow> int \<Rightarrow> entry" where
  "newEntry clk d pruned =
     \<lparr>entry_id = now clk, trend = trendOf d, diff = diffLabel d, timestamp = timeString clk,
      message = dynamicMessage d pruned\<rparr>"

text \<open>
  \<^verbatim>\<open>handleRefine\<close> after the \<^verbatim>\<open>await\<close>. A rejected request goes to the \<^verbatim>\<open>catch\<close>
  block; so does a resolved one when the captured \<^verbatim>\<open>report\<close> is \<^verbatim>\<open>null\<close>, because
  \<^verbatim>\<open>report.analysis\<close> throws before any state is written. \<^verbatim>\<open>setInsights\<close> is given a
  function of the state at that moment, \<^verbatim>\<open>setReport\<close> the response body.
\<close>

definition handleRefine_end ::
  "clock \<Rightarrow> captured \<Rightarrow> response \<Rightarrow> session \<Rightarrow> session \<times> string option" where
  "handleRefine_end clk cap res s =
     (case res of
        Rejected \<Rightarrow> (s\<lparr>loading := False\<rparr>, Some ''Refining failed.'')
      | Resolved d \<Rightarrow>
          (case seen_report cap of
             None \<Rightarrow> (s\<lparr>loading := False\<rparr>, Some ''Refining failed.'')
           | Some rep \<Rightarrow>
               (s\<lparr>insights :=
                    take 5 (newEntry clk (diffOf (newAccuracy d) (prevAccuracy (seen_report cap)))
                              (prunedCount rep (seen_selectedCols cap)) # insights s),
                  report := Some d,
                  loading := False\<rparr>, None)))"

text \<open>The whole handler, when nothing else happens while the request is in flight.\<close>

definition handleRefine :: "clock \<Rightarrow> response \<Rightarrow> session \<Rightarrow> session" where
  "handleRefine clk res s =
     (case handleRefine_begin s of
        (s', None) \<Rightarrow> s'
      | (s', Some (rq, cap)) \<Rightarrow> fst (handleRefine_end clk cap res s'))"

subsection \<open>The session as a transition system\<close>

text \<open>
  A state of the running component is the session together with the requests in flight.
  The user's actions and the settling of a request are the steps; a request may settle in
  any order and after any number of other steps. The conditions under which the page
  shows a control are not part of a step, so every run of the page is a run here.
\<close>

datatype pending = PendingUpload | PendingRefine captured

datatype action =
    UploadFile "file_handle option"
  | ToggleColumn string
  | ChangeTarget string
  | ToggleDropdown string
  | RequestRecalibration
  | Settle nat clock response

type_synonym system = "session \<times> pending list"

fun step :: "action \<Rightarrow> system \<Rightarrow> system" where
  "step (UploadFile uploadedFile) (s, ps) =
     (case processFile_begin uploadedFile s of
        (s', None) \<Rightarrow> (s', ps)
      | (s', Some rq) \<Rightarrow> (s', ps @ [PendingUpload]))"
| "step (ToggleColumn c) (s, ps) = (toggleColumn c s, ps)"
| "step (ChangeTarget t) (s, ps) = (handleTargetChange t s, ps)"
| "step (ToggleDropdown n) (s, ps) = (toggleDropdown n s, ps)"
| "step RequestRecalibration (s, ps) =
     (case handleRefine_begin s of
        (s', None) \<Rightarrow> (s', ps)
      | (s', Some (rq, cap)) \<Rightarrow> (s', ps @ [PendingRefine cap]))"
| "step (Settle i clk res) (s, ps) =
     (if i < length ps then
        (case ps ! i of
           PendingUpload \<Rightarrow> (fst (processFile_end clk res s), take i ps @ drop (Suc i) ps)
         | PendingRefine cap \<Rightarrow>
             (fst (handleRefine_end clk cap res s), take i ps @ drop (Suc i) ps))
      else (s, ps))"

definition run :: "action list \<Rightarrow> system \<Rightarrow> system" where
  "run acts st = fold step acts st"

text \<open>The target is not among the selected columns.\<close>

definition target_excluded :: "session \<Rightarrow> bool" where
  "target_excluded s =
     (case selectedTarget s of None \<Rightarrow> True | Some t \<Rightarrow> t \<notin> set (selectedCols s))"

subsection \<open>Sample data\<close>

text \<open>
  A response of the analysis service for a file with the given columns, target
  \<^verbatim>\<open>price\<close> and the given accuracy, and a clock reading; they are the concrete inputs of
  the evaluated examples below.
\<close>

definition sample_column :: "string \<Rightarrow> column_diagnostic" where
  "sample_column v =
     \<lparr>col_value = v, col_label = v, col_type = ''numeric'', cardinality = 12, missing_pct = 0\<rparr>"

definition sample_report :: "jsvalue \<Rightarrow> string list \<Rightarrow> report" where
  "sample_report acc cols =
     \<lparr>stats = \<lparr>accuracy = acc, rows = 100, missing_before = 4, missing_after = 0,
                target_used = ''price''\<rparr>,
      analysis = \<lparr>column_diagnostics = map sample_column cols, feature_importance = [],
                   health_data = []\<rparr>,
      preview_data = []\<rparr>"

definition sample_clock :: clock where
  "sample_clock = \<lparr>now = 1700000000000, timeString = ''10:15 AM''\<rparr>"

text \<open>
  The session after \<^verbatim>\<open>houses.csv\<close> was uploaded and the analysis reported the given
  accuracy; in \<open>sample_ready\<close> the accuracy is 82.
\<close>

definition sample_session :: "jsvalue \<Rightarrow> session" where
  "sample_session acc =
     processFile sample_clock (Some ''houses.csv'')
       (Resolved (sample_report acc [''age'', ''rooms'', ''price''])) initial"

definition sample_ready :: session where
  "sample_ready = sample_session (Numeric 82)"

text \<open>
  The session of scenario A: the report in force has ten columns and accuracy 82, seven
  features are selected.
\<close>

definition scenario_A :: session where
  "scenario_A =
     \<lparr>loading = False,
      report = Some (sample_report (Numeric 82)
        [''age'', ''rooms'', ''area'', ''floor'', ''year'', ''garage'', ''garden'', ''zip'',
         ''owner'', ''price'']),
      file' = Some ''houses.csv'',
      selectedCols = [''age'', ''rooms'', ''area'', ''floor'', ''year'', ''garage'', ''garden''],
      selectedTarget = Some ''price'', insights = [initEntry sample_clock],
      openDropdown = None\<rparr>"

text \<open>
  What \<^verbatim>\<open>handleRefine\<close> captures in scenario A, and a response with accuracy 84.5 whose
  own diagnostics list two columns only.
\<close>

definition scenario_A_captured :: captured where
  "scenario_A_captured =
     \<lparr>seen_report = report scenario_A, seen_selectedCols = selectedCols scenario_A\<rparr>"

definition scenario_A_response :: report where
  "scenario_A_response = sample_report (Numeric (169 / 2)) [''age'', ''price'']"

section \<open>Properties\<close>

subsection \<open>Reading back what \<open>toFixed1\<close> prints\<close>

lemma digit_val_digit_char: "d < 10 \<Longrightarrow> digit_val (digit_char d) = Some d"
  by (simp add: digit_val_def digit_char_def)

lemma digit_char_neq:
  "d < 10 \<Longrightarrow>
   digit_char d \<noteq> CHR ''.'' \<and> digit_char d \<noteq> CHR ''-'' \<and> digit_char d \<noteq> CHR ''I''"
  using digit_val_digit_char [of d] by (auto simp: digit_val_def)

lemma nat_of_digits_snoc:
  "d < 10 \<Longrightarrow> nat_of_digits acc (cs @ [digit_char d]) =
     map_option (\<lambda>v. 10 * v + d) (nat_of_digits acc cs)"
  by (induction cs arbitrary: acc) (auto simp: digit_val_digit_char split: option.splits)

lemma nat_of_digits_decimal_of_nat: "nat_of_digits 0 (decimal_of_nat n) = Some n"
proof (induction n rule: decimal_of_nat.induct)
  case (1 n)
  show ?case
  proof (cases "n < 10")
    case True
    then show ?thesis by (simp add: decimal_of_nat.simps [of n] digit_val_digit_char)
  next
    case False
    with 1 show ?thesis
      by (simp add: decimal_of_nat.simps [of n] nat_of_digits_snoc)
  qed
qed

lemma decimal_of_nat_digits: "c \<in> set (decimal_of_nat n) \<Longrightarrow> \<exists>d<10. c = digit_char d"
proof (induction n rule: decimal_of_nat.induct)
  case (1 n)
  show ?case
  proof (cases "n < 10")
    case True
    with 1(2) show ?thesis by (auto simp: decimal_of_nat.simps [of n])
  next
    case False
    with 1 show ?thesis
      by (auto simp: decimal_of_nat.simps [of n] intro: exI [of _ "n mod 10"])
  qed
qed

lemma decimal_of_nat_nonempty: "decimal_of_nat n \<noteq> []"
  by (subst decimal_of_nat.simps) simp


lemma decimal_of_nat_no_point: "c \<in> set (decimal_of_nat m) \<Longrightarrow> c \<noteq> CHR ''.''"
  using decimal_of_nat_digits [of c m] digit_char_neq by auto

lemma unsigned_decimal_tenths:
  assumes "d < 10"
  shows "unsigned_decimal (decimal_of_nat m @ ''.'' @ [digit_char d]) = Some (of_nat m + of_nat d / 10)"
proof -
  have tw: "takeWhile (\<lambda>c. c \<noteq> CHR ''.'') (decimal_of_nat m @ ''.'' @ [digit_char d]) = decimal_of_nat m"
    using decimal_of_nat_no_point by (simp add: takeWhile_append2)
  show ?thesis
    unfolding unsigned_decimal_def tw Let_def
    using assms
    by (simp add: decimal_of_nat_nonempty nat_of_digits_decimal_of_nat digit_val_digit_char)
qed

lemma decimal_of_nat_no_minus: "c \<in> set (decimal_of_nat m) \<Longrightarrow> c \<noteq> CHR ''-''"
  using decimal_of_nat_digits [of c m] digit_char_neq by auto

lemma decimal_of_nat_no_letter: "c \<in> set (decimal_of_nat m) \<Longrightarrow> c \<noteq> CHR ''I''"
  using decimal_of_nat_digits [of c m] digit_char_neq by auto

lemma hd_decimal_of_nat:
  "hd (decimal_of_nat n) \<noteq> CHR ''-'' \<and> hd (decimal_of_nat n) \<noteq> CHR ''I''"
  using decimal_of_nat_no_minus [of "hd (decimal_of_nat n)" n]
    decimal_of_nat_no_letter [of "hd (decimal_of_nat n)" n]
  by (simp add: decimal_of_nat_nonempty)

lemma toNumber_unsigned:
  "c \<noteq> CHR ''-'' \<Longrightarrow> c \<noteq> CHR ''I'' \<Longrightarrow>
   toNumber (c # t) = (case unsigned_decimal (c # t) of None \<Rightarrow> NaN | Some v \<Rightarrow> Finite v)"
  by (simp add: toNumber_def)

lemma toNumber_signed:
  "c \<noteq> CHR ''I'' \<Longrightarrow>
   toNumber (CHR ''-'' # c # t) =
     (case unsigned_decimal (c # t) of None \<Rightarrow> NaN | Some v \<Rightarrow> Finite (- v))"
  by (simp add: toNumber_def)

lemma tenths_split: "(of_nat (n div 10) + of_nat (n mod 10) / 10 :: rat) = of_nat n / 10"
proof -
  have "(of_nat n :: rat) = of_nat (10 * (n div 10) + n mod 10)" by simp
  also have "\<dots> = 10 * of_nat (n div 10) + of_nat (n mod 10)"
    by (simp only: of_nat_add of_nat_mult of_nat_numeral)
  finally show ?thesis by simp
qed

lemma toNumber_toFixed1:
  "toNumber (toFixed1 (Finite r)) =
     Finite (if r < 0 then - (of_nat (tenths r) / 10) else of_nat (tenths r) / 10)"
proof -
  let ?n = "tenths r"
  let ?body = "decimal_of_nat (?n div 10) @ ''.'' @ [digit_char (?n mod 10)]"
  have ud: "unsigned_decimal ?body = Some (of_nat ?n / 10)"
    using unsigned_decimal_tenths [of "?n mod 10" "?n div 10"] tenths_split [of ?n] by simp
  obtain c t where body: "?body = c # t" and c: "c \<noteq> CHR ''-''" "c \<noteq> CHR ''I''"
    using hd_decimal_of_nat [of "?n div 10"] decimal_of_nat_nonempty [of "?n div 10"]
    by (cases "decimal_of_nat (?n div 10)") auto
  show ?thesis
  proof (cases "r < 0")
    case True
    then have "toFixed1 (Finite r) = CHR ''-'' # c # t"
      using body by simp
    then show ?thesis
      using True ud [unfolded body] toNumber_signed [OF c(2), of t] by simp
  next
    case False
    then have "toFixed1 (Finite r) = c # t"
      using body by simp
    then show ?thesis
      using False ud [unfolded body] toNumber_unsigned [OF c, of t] by simp
  qed
qed

lemma toNumber_NaN: "toNumber ''NaN'' = NaN"
  by code_simp

lemma toNumber_Infinity:
  "toNumber ''Infinity'' = PosInfinity" "toNumber ''-Infinity'' = NegInfinity"
  by (simp_all add: toNumber_def)

subsection \<open>The sign of the printed difference\<close>

lemma tenths_bounds:
  "\<bar>r\<bar> - 1 / 20 < of_nat (tenths r) / 10 \<and> (of_nat (tenths r) / 10 :: rat) \<le> \<bar>r\<bar> + 1 / 20"
proof -
  let ?x = "\<bar>r\<bar> * 10 + 1 / 2"
  have nonneg: "0 \<le> \<lfloor>?x\<rfloor>" by simp
  then have eq: "(of_nat (tenths r) :: rat) = of_int \<lfloor>?x\<rfloor>"
    by (simp add: tenths_def)
  have "of_int \<lfloor>?x\<rfloor> \<le> ?x" "?x < of_int \<lfloor>?x\<rfloor> + 1"
    by linarith+
  then show ?thesis unfolding eq by (simp add: field_simps)
qed

lemma tenths_pos_iff: "(0 < tenths r) = (1 / 20 \<le> \<bar>r\<bar>)"
proof -
  have "(0 < tenths r) = (1 \<le> \<lfloor>\<bar>r\<bar> * 10 + 1 / 2\<rfloor>)"
    by (auto simp: tenths_def)
  also have "\<dots> = (1 \<le> \<bar>r\<bar> * 10 + 1 / 2)"
    by (simp add: le_floor_iff)
  also have "\<dots> = (1 / 20 \<le> \<bar>r\<bar>)" by (simp add: field_simps)
  finally show ?thesis .
qed

subsection \<open>The entry of a difference that is not a number\<close>

lemma newEntry_NaN:
  "trend (newEntry clk ''NaN'' k) = ''STABLE'' \<and> diff (newEntry clk ''NaN'' k) = ''NaN%'' \<and>
   message (newEntry clk ''NaN'' k) =
     ''Model weights recalculated. System remains stable with the current feature set.''"
  by (simp add: newEntry_def trendOf_def diffLabel_def dynamicMessage_def toNumber_NaN)


subsection \<open>Doubles are fixed points of the rounding\<close>

lemma round_half_even_of_int: "round_half_even (of_int n) = n"
  by (simp add: round_half_even_def)

lemma dyadic_below: 
  fixes x :: rat
  assumes "x = of_nat m / 2 ^ k" and "m < 2 ^ 53" 
  shows "x * 2 ^ k < 9007199254740992"
proof -
  have "(of_nat m :: rat) < of_nat (2 ^ 53)"
    using assms(2) by (simp only: of_nat_less_iff)
  then have "(of_nat m :: rat) < 9007199254740992" by simp
  moreover have "x * 2 ^ k = of_nat m" using assms(1) by simp
  ultimately show ?thesis by simp
qed

lemma dyadic_integer:
  fixes x :: rat
  assumes "x = of_nat m / 2 ^ k" and "m < 2 ^ 53" and "4503599627370496 \<le> x"
  shows "k = 0"
proof (rule ccontr)
  assume "k \<noteq> 0"
  then obtain j where k: "k = Suc j" by (cases k) auto
  have "(1::rat) \<le> 2 ^ j" by simp
  then have "x * 2 \<le> x * 2 * 2 ^ j"
    using assms(3) by (simp add: mult_le_cancel_left1)
  also have "\<dots> = x * 2 ^ k" by (simp add: k)
  also have "\<dots> < 9007199254740992" by (rule dyadic_below [OF assms(1,2)])
  finally show False using assms(3) by simp
qed


lemma round_small_exact:
  assumes "x = of_nat m / 2 ^ k" and "m < 2 ^ 53" and "int k \<le> e + 1074"
  shows "round_small x e = x"
  using assms
proof (induction x e arbitrary: m k rule: round_small.induct)
  case (1 x e)
  show ?case
  proof (cases "4503599627370496 \<le> x \<or> e \<le> - 1074")
    case True
    have "k = 0"
    proof (cases "e \<le> - 1074")
      case True
      with "1.prems"(3) show ?thesis by simp
    next
      case False
      with True have "4503599627370496 \<le> x" by simp
      then show ?thesis by (rule dyadic_integer [OF "1.prems"(1,2)])
    qed
    then have "x = of_int (int m)"
      using "1.prems"(1) by simp
    then have "of_int (round_half_even x) = x"
      by (simp only: round_half_even_of_int)
    with True show ?thesis
      by (subst round_small.simps) simp
  next
    case False
    then have small: "x < 4503599627370496" and e: "- 1074 < e"
      by simp_all
    have step: "round_small (2 * x) (e - 1) = 2 * x"
    proof (cases k)
      case 0
      then have xm: "x = of_nat m"
        using "1.prems"(1) by simp
      have "(of_nat m :: rat) < of_nat 4503599627370496"
        using small xm by simp
      then have "m < 4503599627370496"
        by (simp only: of_nat_less_iff)
      then have a: "2 * m < 2 ^ 53"
        by simp
      have b: "2 * x = of_nat (2 * m) / 2 ^ 0"
        using xm by simp
      have c: "int 0 \<le> e - 1 + 1074"
        using e by simp
      show ?thesis
        by (rule "1.IH" [OF False b a c])
    next
      case (Suc j)
      have b: "2 * x = of_nat m / 2 ^ j"
        using "1.prems"(1) Suc by simp
      have c: "int j \<le> e - 1 + 1074"
        using "1.prems"(3) Suc by simp
      show ?thesis
        by (rule "1.IH" [OF False b "1.prems"(2) c])
    qed
    show ?thesis
      using False step by (subst round_small.simps) simp
  qed
qed

lemma round_double_exact:
  assumes "\<bar>x\<bar> = of_nat m / 2 ^ k" and "m < 2 ^ 53" and "k \<le> 1074"
  shows "round_double x = Finite x"
proof (cases "x = 0")
  case True
  then show ?thesis
    by (simp add: round_double_def)
next
  case False
  have rs: "round_small \<bar>x\<bar> 0 = \<bar>x\<bar>"
    using round_small_exact [OF assms(1,2), of 0] assms(3) by simp
  have "(1::rat) \<le> 2 ^ k"
    by simp
  then have "\<bar>x\<bar> \<le> \<bar>x\<bar> * 2 ^ k"
    by (simp add: mult_le_cancel_left1)
  also have "\<dots> < 9007199254740992"
    by (rule dyadic_below [OF assms(1,2)])
  finally have lt: "\<bar>x\<bar> < 9007199254740992" .
  show ?thesis
  proof (cases "x < 0")
    case True
    then show ?thesis
      using False rs lt by (simp add: round_double_def Let_def)
  next
    case nonneg: False
    then show ?thesis
      using False rs lt by (simp add: round_double_def Let_def)
  qed
qed

subsection \<open>Evaluated renderings\<close>

lemma round_double_samples:
  "round_double 82 = Finite 82" "round_double (169 / 2) = Finite (169 / 2)"
  "round_double (5 / 2) = Finite (5 / 2)" "round_double (- 82) = Finite (- 82)"
  using round_double_exact [of 82 82 0] round_double_exact [of "169 / 2" 169 1]
    round_double_exact [of "5 / 2" 5 1] round_double_exact [of "- 82" 82 0]
  by simp_all

lemma toFixed1_samples:
  "toFixed1 (Finite (5 / 2)) = ''2.5''" "toFixed1 (Finite (- 82)) = ''-82.0''"
  by code_simp+

lemma diffOf_scenario_A: "diffOf (Finite (169 / 2)) (Finite 82) = ''2.5''"
  by (simp add: diffOf_def round_double_samples toFixed1_samples del: toFixed1.simps)

lemma diffOf_to_zero: "diffOf (Finite 0) (Finite 82) = ''-82.0''"
  by (simp add: diffOf_def round_double_samples toFixed1_samples del: toFixed1.simps)

text \<open>
  The rounding of the operands and of the difference shows in what is printed. The
  doubles nearest to 0.054 and 0.004 differ by the double nearest to 0.05, which is above
  one twentieth, so that \<^verbatim>\<open>0.1\<close> is printed although 0.054 - 0.004 is 0.05 and the
  exact difference of the two doubles is below it.
\<close>

lemma parseFloat_near_0_054:
  "parseFloat (Numeric (27 / 500)) = Finite (7782220156096217 / 144115188075855872)"
  by code_simp

lemma parseFloat_near_0_004:
  "parseFloat (Numeric (1 / 250)) = Finite (1152921504606847 / 288230376151711744)"
  by code_simp

lemma jsnum_minus_near_0_05:
  "jsnum_minus (Finite (7782220156096217 / 144115188075855872))
     (Finite (1152921504606847 / 288230376151711744)) =
   Finite (3602879701896397 / 72057594037927936)"
  by code_simp

lemma toFixed1_near_0_05: "toFixed1 (Finite (3602879701896397 / 72057594037927936)) = ''0.1''"
  by code_simp

lemma diffOf_rounds_operands:
  "diffOf (parseFloat (Numeric (27 / 500))) (parseFloat (Numeric (1 / 250))) = ''0.1''"
  unfolding diffOf_def parseFloat_near_0_054 parseFloat_near_0_004 jsnum_minus_near_0_05
  by (rule toFixed1_near_0_05)

lemma toNumber_scenario_A: "toNumber ''2.5'' = Finite (5 / 2)"
  by code_simp

lemma decimal_of_int_3: "decimal_of_int 3 = ''3''"
  by code_simp

lemma toNumber_to_zero: "toNumber ''-82.0'' = Finite (- 82)"
  by code_simp

subsection \<open>The insight log stays short\<close>

lemma handleRefine_end_insights_length:
  "length (insights s) \<le> 5 \<Longrightarrow> length (insights (fst (handleRefine_end clk cap res s))) \<le> 5"
  by (simp add: handleRefine_end_def split: response.splits option.splits)

lemma processFile_end_insights_length:
  "length (insights s) \<le> 5 \<Longrightarrow> length (insights (fst (processFile_end clk res s))) \<le> 5"
  by (simp add: processFile_end_def split: response.splits)

lemma step_insights_length:
  "length (insights (fst st)) \<le> 5 \<Longrightarrow> length (insights (fst (step a st))) \<le> 5"
proof (cases st)
  case (Pair s ps)
  assume "length (insights (fst st)) \<le> 5"
  with Pair have le: "length (insights s) \<le> 5" by simp
  show ?thesis
  proof (cases a)
    case (UploadFile uf)
    with Pair le show ?thesis
      by (cases uf) (simp_all add: processFile_begin_def)
  next
    case (ToggleColumn c)
    with Pair le show ?thesis by (simp add: toggleColumn_def)
  next
    case (ChangeTarget t)
    with Pair le show ?thesis by (simp add: handleTargetChange_def)
  next
    case (ToggleDropdown n)
    with Pair le show ?thesis by (simp add: toggleDropdown_def)
  next
    case RequestRecalibration
    with Pair le show ?thesis
      by (simp add: handleRefine_begin_def split: option.splits)
  next
    case (Settle i clk res)
    with Pair le show ?thesis
      using handleRefine_end_insights_length [of s clk _ res]
        processFile_end_insights_length [of s clk res]
      by (simp split: pending.splits)
  qed
qed

lemma run_insights_length:
  "length (insights (fst st)) \<le> 5 \<Longrightarrow> length (insights (fst (run acts st))) \<le> 5"
  unfolding run_def
  by (induction acts arbitrary: st) (simp_all add: step_insights_length)


subsection \<open>The sample session\<close>

lemma sample_session_eq:
  "sample_session acc =
     \<lparr>loading = False,
      report = Some (sample_report acc [''age'', ''rooms'', ''price'']),
      file' = Some ''houses.csv'', selectedCols = [''age'', ''rooms''],
      selectedTarget = Some ''price'', insights = [initEntry sample_clock],
      openDropdown = None\<rparr>"
  by (simp add: sample_session_def processFile_def processFile_begin_def processFile_end_def
      sample_report_def sample_column_def initial_def)

lemma sample_ready_eq:
  "sample_ready =
     \<lparr>loading = False,
      report = Some (sample_report (Numeric 82) [''age'', ''rooms'', ''price'']),
      file' = Some ''houses.csv'', selectedCols = [''age'', ''rooms''],
      selectedTarget = Some ''price'', insights = [initEntry sample_clock],
      openDropdown = None\<rparr>"
  by (simp add: sample_ready_def sample_session_eq)

subsection \<open>Single flight\<close>

text \<open>
  C1 (as the code has it). \<^verbatim>\<open>handleRefine\<close> never reads \<^verbatim>\<open>loading\<close>. It issues no request
  exactly when no file is held or the target is unset or empty, and then the whole session
  is unchanged; otherwise it raises \<^verbatim>\<open>loading\<close> and posts the held file, the current
  column selection and the current target. Whether a request is issued, and which one, is
  the same for \<^verbatim>\<open>loading\<close> true and false.
\<close>

theorem handleRefine_begin_guard:
  "(snd (handleRefine_begin s) = None) =
     (file' s = None \<or> selectedTarget s = None \<or> selectedTarget s = Some []) \<and>
   (snd (handleRefine_begin s) = None \<longrightarrow>
      fst (handleRefine_begin s) = s \<and> handleRefine clk res s = s) \<and>
   (snd (handleRefine_begin s) = Some (rq, cap) \<longrightarrow>
      fst (handleRefine_begin s) = s\<lparr>loading := True\<rparr> \<and>
      file' s = Some (form_file rq) \<and> form_selected_columns rq = selectedCols s \<and>
      form_target_column rq = selectedTarget s) \<and>
   snd (handleRefine_begin (s\<lparr>loading := b\<rparr>)) = snd (handleRefine_begin s)"
  by (auto simp: handleRefine_begin_def handleRefine_def falsy_def split: option.splits)

theorem handleRefine_begin_guard_witness:
  "snd (handleRefine_begin initial) = None \<and> fst (handleRefine_begin initial) = initial \<and>
   handleRefine sample_clock Rejected initial = initial \<and>
   snd (handleRefine_begin sample_ready) =
     Some (\<lparr>form_file = ''houses.csv'', form_selected_columns = [''age'', ''rooms''],
              form_target_column = Some ''price''\<rparr>,
           \<lparr>seen_report = report sample_ready, seen_selectedCols = [''age'', ''rooms'']\<rparr>) \<and>
   fst (handleRefine_begin sample_ready) = sample_ready\<lparr>loading := True\<rparr>"
proof -
  have a: "file' initial = None"
    by (simp add: initial_def)
  have b: "snd (handleRefine_begin sample_ready) =
     Some (\<lparr>form_file = ''houses.csv'', form_selected_columns = [''age'', ''rooms''],
              form_target_column = Some ''price''\<rparr>,
           \<lparr>seen_report = report sample_ready, seen_selectedCols = [''age'', ''rooms'']\<rparr>)"
    by (simp add: sample_ready_eq handleRefine_begin_def falsy_def)
  show ?thesis
    using handleRefine_begin_guard [of initial sample_clock Rejected]
      handleRefine_begin_guard [of sample_ready _ _ _ _ False] a b by simp
qed

text \<open>
  C1 as stated fails: in the sample session with a request already in flight
  (\<^verbatim>\<open>loading\<close> true), \<^verbatim>\<open>handleRefine\<close> posts another request.
\<close>

theorem handleRefine_while_loading_sends:
  "loading (sample_ready\<lparr>loading := True\<rparr>) \<and>
   map_option fst (snd (handleRefine_begin (sample_ready\<lparr>loading := True\<rparr>))) =
     Some \<lparr>form_file = ''houses.csv'', form_selected_columns = [''age'', ''rooms''],
            form_target_column = Some ''price''\<rparr>"
  by (simp add: sample_ready_eq handleRefine_begin_def falsy_def)

subsection \<open>Target and feature selection\<close>

text \<open>
  Every step but one keeps the target out of the selected columns; the exception is
  \<^verbatim>\<open>toggleColumn\<close> applied to the target itself.
\<close>

lemma step_target_excluded:
  assumes "target_excluded s" and "\<forall>c. a = ToggleColumn c \<longrightarrow> selectedTarget s \<noteq> Some c"
  shows "target_excluded (fst (step a (s, ps)))"
proof (cases a)
  case (UploadFile uf)
  with assms(1) show ?thesis
    by (cases uf) (auto simp: processFile_begin_def target_excluded_def split: option.splits)
next
  case (ToggleColumn c)
  with assms show ?thesis
    by (auto simp: toggleColumn_def target_excluded_def split: option.splits)
next
  case (ChangeTarget t)
  then show ?thesis
    by (auto simp: handleTargetChange_def target_excluded_def)
next
  case (ToggleDropdown n)
  with assms(1) show ?thesis
    by (auto simp: toggleDropdown_def target_excluded_def split: option.splits)
next
  case RequestRecalibration
  with assms(1) show ?thesis
    by (auto simp: handleRefine_begin_def target_excluded_def split: option.splits)
next
  case (Settle i clk res)
  with assms(1) show ?thesis
    by (auto simp: processFile_end_def handleRefine_end_def target_excluded_def
        split: pending.splits response.splits option.splits)
qed

text \<open>
  C2 at its failing input: after a successful upload whose target is \<^verbatim>\<open>price\<close>,
  \<^verbatim>\<open>toggleColumn("price")\<close> appends the target to the selected columns.
\<close>

theorem toggleColumn_target_selected:
  "selectedTarget (fst (run [UploadFile (Some ''houses.csv''),
       Settle 0 sample_clock (Resolved (sample_report (Numeric 82) [''age'', ''rooms'', ''price''])),
       ToggleColumn ''price''] (initial, []))) = Some ''price'' \<and>
   selectedCols (fst (run [UploadFile (Some ''houses.csv''),
       Settle 0 sample_clock (Resolved (sample_report (Numeric 82) [''age'', ''rooms'', ''price''])),
       ToggleColumn ''price''] (initial, []))) = [''age'', ''rooms'', ''price'']"
  by (simp add: run_def processFile_begin_def processFile_end_def toggleColumn_def
      sample_report_def sample_column_def initial_def)



subsection \<open>Initial upload\<close>

text \<open>
  C3 (as the code has it). After a successful upload, from any session, the insight log is
  exactly one entry, the baseline entry, whose trend is \<^verbatim>\<open>STABLE\<close> and whose difference
  label is \<^verbatim>\<open>INIT\<close>.
\<close>

theorem processFile_resolved_insights:
  "insights (processFile clk (Some f) (Resolved d) s) = [initEntry clk] \<and>
   length (insights (processFile clk (Some f) (Resolved d) s)) = 1 \<and>
   trend (initEntry clk) = ''STABLE'' \<and> diff (initEntry clk) = ''INIT''"
  by (simp add: processFile_def processFile_begin_def processFile_end_def initEntry_def)

text \<open>C3 as stated fails: the trend of the entry of the first upload is not \<^verbatim>\<open>INIT\<close>.\<close>

theorem first_upload_trend_not_INIT:
  "report initial = None \<and>
   map trend (insights (processFile sample_clock (Some ''houses.csv'')
       (Resolved (sample_report (Numeric 82) [''age'', ''rooms'', ''price''])) initial)) =
     [''STABLE''] \<and>
   ''STABLE'' \<noteq> ''INIT''"
  by (simp add: processFile_def processFile_begin_def processFile_end_def initEntry_def
      initial_def)

text \<open>
  C7 (as the code has it). When the request of an upload is rejected, the report, the
  selection and the log are those of the session before the upload and \<^verbatim>\<open>loading\<close> is
  false again, and the session holds the file that was given to the upload.
\<close>

theorem processFile_rejected:
  "processFile clk (Some f) Rejected s = s\<lparr>file' := Some f, loading := False\<rparr> \<and>
   report (processFile clk (Some f) Rejected s) = report s \<and>
   selectedCols (processFile clk (Some f) Rejected s) = selectedCols s \<and>
   selectedTarget (processFile clk (Some f) Rejected s) = selectedTarget s \<and>
   insights (processFile clk (Some f) Rejected s) = insights s \<and>
   loading (processFile clk (Some f) Rejected s) = False \<and>
   file' (processFile clk (Some f) Rejected s) = Some f"
  by (simp add: processFile_def processFile_begin_def processFile_end_def)

text \<open>
  C7 as stated fails in "no file held": after a rejected first upload the session holds
  the file.
\<close>

theorem processFile_rejected_keeps_file:
  "file' initial = None \<and>
   file' (processFile sample_clock (Some ''houses.csv'') Rejected initial) = Some ''houses.csv''"
  by (simp add: processFile_def processFile_begin_def processFile_end_def initial_def)

subsection \<open>Failed recalibration\<close>

text \<open>
  C6. When a recalibration is requested (a file and a target are present) and the request
  is rejected, the report and the insight log are those before the request; the session is
  the one before the request with \<^verbatim>\<open>loading\<close> false, and a further recalibration can be
  requested from it. The continuation alone, run on any later session, changes nothing but
  \<^verbatim>\<open>loading\<close> and shows the alert.
\<close>

theorem handleRefine_rejected:
  assumes "file' s = Some f" and "selectedTarget s = Some t" and "t \<noteq> []"
  shows "report (handleRefine clk Rejected s) = report s \<and>
         insights (handleRefine clk Rejected s) = insights s \<and>
         handleRefine clk Rejected s = s\<lparr>loading := False\<rparr> \<and>
         handleRefine_end clk cap Rejected s' = (s'\<lparr>loading := False\<rparr>, Some ''Refining failed.'') \<and>
         snd (handleRefine_begin (handleRefine clk Rejected s)) \<noteq> None"
  using assms
  by (simp add: handleRefine_def handleRefine_begin_def handleRefine_end_def falsy_def)

theorem handleRefine_rejected_witness:
  "report (handleRefine sample_clock Rejected sample_ready) =
     Some (sample_report (Numeric 82) [''age'', ''rooms'', ''price'']) \<and>
   insights (handleRefine sample_clock Rejected sample_ready) = [initEntry sample_clock] \<and>
   handleRefine sample_clock Rejected sample_ready = sample_ready"
proof -
  have "file' sample_ready = Some ''houses.csv''" "selectedTarget sample_ready = Some ''price''"
    "''price'' \<noteq> []"
    by (simp_all add: sample_ready_eq)
  from handleRefine_rejected [OF this, of sample_clock] show ?thesis
    by (simp add: sample_ready_eq)
qed

subsection \<open>Scenario A\<close>

lemma scenario_A_facts:
  "seen_report scenario_A_captured =
     Some (sample_report (Numeric 82)
        [''age'', ''rooms'', ''area'', ''floor'', ''year'', ''garage'', ''garden'', ''zip'',
         ''owner'', ''price''])"
  "seen_selectedCols scenario_A_captured =
     [''age'', ''rooms'', ''area'', ''floor'', ''year'', ''garage'', ''garden'']"
  "accuracy (stats (sample_report acc cols)) = acc"
  "length (column_diagnostics (analysis (sample_report acc cols))) = length cols"
  "accuracy (stats scenario_A_response) = Numeric (169 / 2)"
  by (simp_all add: scenario_A_captured_def scenario_A_def sample_report_def
      scenario_A_response_def)

lemma scenario_A_entry:
  "newEntry clk ''2.5'' 3 =
     \<lparr>entry_id = now clk, trend = ''OPTIMIZED'', diff = ''+2.5%'', timestamp = timeString clk,
      message = ''Optimization successful. Pruning 3 noisy vectors enhanced the focus on primary predictors.''\<rparr>"
  by (simp add: newEntry_def trendOf_def diffLabel_def dynamicMessage_def toNumber_scenario_A
      decimal_of_int_3)

lemma scenario_A_insights:
  "insights (fst (handleRefine_end clk scenario_A_captured (Resolved scenario_A_response) s)) =
     newEntry clk ''2.5'' 3 # take 4 (insights s)"
  by (simp add: handleRefine_end_def scenario_A_facts newAccuracy_def prevAccuracy_def
      prunedCount_def round_double_samples diffOf_scenario_A take_Cons')

subsection \<open>Trend and label of a recalibration\<close>

text \<open>
  When the difference of the two accuracies is a finite number \<open>x\<close>, in the range where
  \<^verbatim>\<open>toFixed\<close> prints fixed notation, the entry at the head of the log is the one the
  classification describes: the string \<^verbatim>\<open>diff\<close> reads as a number \<open>q\<close>, a multiple of one
  tenth nearest to \<open>x\<close> and of its sign or zero; the trend is \<^verbatim>\<open>OPTIMIZED\<close> exactly when
  \<open>q > 0\<close>, \<^verbatim>\<open>DEGRADED\<close> exactly when \<open>q < 0\<close> and \<^verbatim>\<open>STABLE\<close> exactly when \<open>q = 0\<close>; the
  label is \<^verbatim>\<open>diff\<close> followed by \<^verbatim>\<open>%\<close>, with \<^verbatim>\<open>+\<close> in front when \<open>q > 0\<close>.
\<close>

lemma trend_of_finite_difference:
  assumes "seen_report cap = Some rep"
    and "jsnum_minus (newAccuracy d) (prevAccuracy (Some rep)) = Finite x"
    and "\<bar>x\<bar> < 10 ^ 21"
  shows "\<exists>e es q. insights (fst (handleRefine_end clk cap (Resolved d) s)) = e # es \<and>
      toNumber (toFixed1 (Finite x)) = Finite q \<and>
      (\<exists>k::int. q = of_int k / 10) \<and> \<bar>x\<bar> - 1 / 20 < \<bar>q\<bar> \<and> \<bar>q\<bar> \<le> \<bar>x\<bar> + 1 / 20 \<and>
      (0 < q \<longrightarrow> 0 < x) \<and> (q < 0 \<longrightarrow> x < 0) \<and>
      (trend e = ''OPTIMIZED'') = (0 < q) \<and>
      (trend e = ''DEGRADED'') = (q < 0) \<and>
      (trend e = ''STABLE'') = (q = 0) \<and>
      (0 < q \<longrightarrow> diff e = ''+'' @ toFixed1 (Finite x) @ ''%'') \<and>
      (\<not> 0 < q \<longrightarrow> diff e = toFixed1 (Finite x) @ ''%'') \<and>
      last (diff e) = CHR ''%''"
proof -
  let ?q = "if x < 0 then - (of_nat (tenths x) / 10) else (of_nat (tenths x) / 10 :: rat)"
  let ?d = "toFixed1 (Finite x)"
  let ?e = "newEntry clk ?d (prunedCount rep (seen_selectedCols cap))"
  have ins: "insights (fst (handleRefine_end clk cap (Resolved d) s)) = ?e # take 4 (insights s)"
    using assms(1,2)
    by (simp add: handleRefine_end_def diffOf_def take_Cons' del: toFixed1.simps)
  have num: "toNumber ?d = Finite ?q"
    by (rule toNumber_toFixed1)
  have mult: "\<exists>k::int. ?q = of_int k / 10"
  proof (cases "x < 0")
    case True
    then show ?thesis by (auto intro!: exI [of _ "- int (tenths x)"])
  next
    case False
    then show ?thesis by (auto intro!: exI [of _ "int (tenths x)"])
  qed
  have absq: "\<bar>?q\<bar> = of_nat (tenths x) / 10"
    by simp
  have bounds: "\<bar>x\<bar> - 1 / 20 < \<bar>?q\<bar>" "\<bar>?q\<bar> \<le> \<bar>x\<bar> + 1 / 20"
    unfolding absq using tenths_bounds [of x] by simp_all
  have sign: "(0 < ?q \<longrightarrow> 0 < x) \<and> (?q < 0 \<longrightarrow> x < 0)"
    using tenths_pos_iff [of x] by (auto split: if_splits)
  have tr: "(trend ?e = ''OPTIMIZED'') = (0 < ?q)" "(trend ?e = ''DEGRADED'') = (?q < 0)"
    "(trend ?e = ''STABLE'') = (?q = 0)"
    by (simp_all add: newEntry_def trendOf_def num del: toFixed1.simps)
  have lab: "0 < ?q \<longrightarrow> diff ?e = ''+'' @ ?d @ ''%''" "\<not> 0 < ?q \<longrightarrow> diff ?e = ?d @ ''%''"
    "last (diff ?e) = CHR ''%''"
    by (simp_all add: newEntry_def diffLabel_def num del: toFixed1.simps)
  show ?thesis
    using ins num mult bounds sign tr lab by blast
qed

lemma handleRefine_sample_session:
  "insights (handleRefine clk (Resolved (sample_report acc' cols)) (sample_session acc)) =
     [newEntry clk (diffOf (parseFloat acc') (parseFloat (or_zero acc))) 1,
      initEntry sample_clock]"
  by (simp add: sample_session_eq handleRefine_def handleRefine_begin_def handleRefine_end_def
      falsy_def newAccuracy_def prevAccuracy_def prunedCount_def scenario_A_facts)

lemma entry_to_zero:
  "trend (newEntry clk ''-82.0'' k) = ''DEGRADED'' \<and> diff (newEntry clk ''-82.0'' k) = ''-82.0%''"
  by (simp add: newEntry_def trendOf_def diffLabel_def toNumber_to_zero)

text \<open>
  An accuracy that reads as infinity gives an infinite difference, which is printed by
  name and is above zero.
\<close>

lemma entry_of_infinite_accuracy:
  "map (\<lambda>e. (trend e, diff e))
     (insights (handleRefine sample_clock
        (Resolved (sample_report InfinityText [''age'', ''rooms'', ''price'']))
        sample_ready)) = [(''OPTIMIZED'', ''+Infinity%''), (''STABLE'', ''INIT'')]"
  by (simp add: sample_ready_def handleRefine_sample_session round_double_samples diffOf_def
      newEntry_def trendOf_def diffLabel_def toNumber_Infinity initEntry_def)

text \<open>
  C4 at its failing input: the sample session, whose report has accuracy 82, recalibrated
  with a response that carries no accuracy. The new accuracy is \<open>NaN\<close>, so is the
  difference, and the string \<^verbatim>\<open>diff\<close> is \<^verbatim>\<open>NaN\<close>, which is neither above, below nor equal
  to zero; the entry is \<^verbatim>\<open>STABLE\<close> all the same.
\<close>

theorem trend_of_missing_accuracy:
  "newAccuracy (sample_report Absent [''age'', ''rooms'', ''price'']) = NaN \<and>
   diffOf (newAccuracy (sample_report Absent [''age'', ''rooms'', ''price'']))
     (prevAccuracy (report sample_ready)) = ''NaN'' \<and>
   toNumber ''NaN'' = NaN \<and> NaN \<noteq> Finite 0 \<and>
   map trend (insights (handleRefine sample_clock
     (Resolved (sample_report Absent [''age'', ''rooms'', ''price''])) sample_ready)) =
     [''STABLE'', ''STABLE'']"
  by (simp add: sample_ready_def handleRefine_sample_session newAccuracy_def scenario_A_facts
      diffOf_def newEntry_NaN initEntry_def toNumber_NaN)

subsection \<open>The bounded log\<close>

text \<open>
  C5. In every state reached from the initial one by any sequence of steps (uploads,
  column toggles, target changes, panel toggles, recalibration requests, and requests
  settling in any order), the insight log has at most five entries. After a recalibration
  that resolves, the new entry is at index 0 and is followed by the first four entries of
  the log before: what was at index 4 is gone.
\<close>

theorem insights_capped:
  "length (insights (fst (run acts (initial, [])))) \<le> 5 \<and>
   (seen_report cap = Some rep \<longrightarrow>
      insights (fst (handleRefine_end clk cap (Resolved d) s)) =
        newEntry clk (diffOf (newAccuracy d) (prevAccuracy (Some rep)))
          (prunedCount rep (seen_selectedCols cap)) # take 4 (insights s) \<and>
      insights (fst (handleRefine_end clk cap (Resolved d) s)) ! 0 =
        newEntry clk (diffOf (newAccuracy d) (prevAccuracy (Some rep)))
          (prunedCount rep (seen_selectedCols cap)) \<and>
      (\<forall>i<4. i < length (insights s) \<longrightarrow>
         insights (fst (handleRefine_end clk cap (Resolved d) s)) ! Suc i = insights s ! i) \<and>
      length (insights (fst (handleRefine_end clk cap (Resolved d) s))) =
        min 5 (Suc (length (insights s))))"
proof -
  have "length (insights (fst (run acts (initial, [])))) \<le> 5"
    by (rule run_insights_length) (simp add: initial_def)
  moreover have "take 5 (e # xs) = e # take 4 xs" for e :: entry and xs
    by (simp add: take_Cons')
  ultimately show ?thesis
    by (auto simp: handleRefine_end_def)
qed

theorem insights_capped_witness:
  "length (insights (fst (run
      [UploadFile (Some ''houses.csv''),
       Settle 0 sample_clock (Resolved (sample_report (Numeric 82) [''age'', ''rooms'', ''price''])),
       RequestRecalibration,
       Settle 0 sample_clock (Resolved scenario_A_response)]
      (initial, [])))) \<le> 5 \<and>
   seen_report scenario_A_captured =
     Some (sample_report (Numeric 82)
        [''age'', ''rooms'', ''area'', ''floor'', ''year'', ''garage'', ''garden'', ''zip'',
         ''owner'', ''price'']) \<and>
   insights (fst (handleRefine_end sample_clock scenario_A_captured (Resolved scenario_A_response)
       (scenario_A\<lparr>insights := replicate 5 (initEntry sample_clock)\<rparr>))) =
     newEntry sample_clock ''2.5'' 3 # replicate 4 (initEntry sample_clock) \<and>
   length (insights (fst (handleRefine_end sample_clock scenario_A_captured
       (Resolved scenario_A_response)
       (scenario_A\<lparr>insights := replicate 5 (initEntry sample_clock)\<rparr>)))) = 5"
proof -
  have p: "prunedCount (sample_report (Numeric 82)
        [''age'', ''rooms'', ''area'', ''floor'', ''year'', ''garage'', ''garden'', ''zip'',
         ''owner'', ''price'']) (seen_selectedCols scenario_A_captured) = 3"
    by (simp add: prunedCount_def scenario_A_facts)
  have a: "newAccuracy scenario_A_response = Finite (169 / 2)"
    "prevAccuracy (Some (sample_report (Numeric 82)
        [''age'', ''rooms'', ''area'', ''floor'', ''year'', ''garage'', ''garden'', ''zip'',
         ''owner'', ''price''])) = Finite 82"
    by (simp_all add: newAccuracy_def prevAccuracy_def scenario_A_facts round_double_samples)
  have t: "take 4 (replicate 5 (initEntry sample_clock)) = replicate 4 (initEntry sample_clock)"
    by simp
  show ?thesis
    using insights_capped [of _ scenario_A_captured
        "sample_report (Numeric 82)
        [''age'', ''rooms'', ''area'', ''floor'', ''year'', ''garage'', ''garden'', ''zip'',
         ''owner'', ''price'']" sample_clock scenario_A_response
        "scenario_A\<lparr>insights := replicate 5 (initEntry sample_clock)\<rparr>"]
      scenario_A_facts(1) p a t diffOf_scenario_A
    by simp
qed

subsection \<open>A missing accuracy\<close>

text \<open>
  C8 at its failing input: the sample session, whose report has accuracy 82, recalibrated
  with a response that carries no accuracy. A report without accuracy gives a previous
  accuracy of 0, through \<^verbatim>\<open>|| 0\<close>; the response without accuracy gives a new accuracy of
  \<open>NaN\<close>, and the entry is \<^verbatim>\<open>STABLE\<close>, \<^verbatim>\<open>NaN%\<close>, where a new accuracy of 0 gives
  \<^verbatim>\<open>DEGRADED\<close>, \<^verbatim>\<open>-82.0%\<close>.
\<close>

theorem new_accuracy_not_defaulted:
  "prevAccuracy (Some (sample_report Absent [''age'', ''rooms'', ''price''])) = Finite 0 \<and>
   newAccuracy (sample_report Absent [''age'', ''rooms'', ''price'']) = NaN \<and>
   map (\<lambda>e. (trend e, diff e))
     (insights (handleRefine sample_clock
        (Resolved (sample_report Absent [''age'', ''rooms'', ''price'']))
        sample_ready)) = [(''STABLE'', ''NaN%''), (''STABLE'', ''INIT'')] \<and>
   map (\<lambda>e. (trend e, diff e))
     (insights (handleRefine sample_clock
        (Resolved (sample_report (Numeric 0) [''age'', ''rooms'', ''price'']))
        sample_ready)) = [(''DEGRADED'', ''-82.0%''), (''STABLE'', ''INIT'')]"
proof -
  have zero: "round_double 0 = Finite 0"
    by (simp add: round_double_def)
  show ?thesis
    by (simp add: sample_ready_def handleRefine_sample_session newAccuracy_def prevAccuracy_def
        scenario_A_facts zero round_double_samples diffOf_to_zero entry_to_zero newEntry_NaN
        initEntry_def diffOf_def [of NaN])
qed

subsection \<open>Where the pruned count comes from\<close>

text \<open>
  C10. A recalibration that is requested with a report in force and resolves builds its
  entry from the number of diagnostics of that report, the one held when the request was
  made, minus the number of selected columns: that difference is the pruned count the
  message of an improvement names. The diagnostics of the response play no part: two
  responses with the same accuracy give the same log.
\<close>

theorem prunedCount_from_previous_report:
  assumes "file' s = Some f" and "selectedTarget s = Some t" and "t \<noteq> []"
    and "report s = Some rep"
  shows "insights (handleRefine clk (Resolved d) s) =
           newEntry clk (diffOf (newAccuracy d) (prevAccuracy (Some rep)))
             (int (length (column_diagnostics (analysis rep))) - int (length (selectedCols s)))
           # take 4 (insights s) \<and>
         (gt_zero (toNumber (diffOf (newAccuracy d) (prevAccuracy (Some rep)))) \<longrightarrow>
            message (hd (insights (handleRefine clk (Resolved d) s))) =
              ''Optimization successful. Pruning '' @
              decimal_of_int (int (length (column_diagnostics (analysis rep))) -
                             int (length (selectedCols s))) @
              '' noisy vectors enhanced the focus on primary predictors.'') \<and>
         (accuracy (stats d') = accuracy (stats d) \<longrightarrow>
            insights (handleRefine clk (Resolved d') s) =
            insights (handleRefine clk (Resolved d) s))"
  using assms
  by (simp add: handleRefine_def handleRefine_begin_def handleRefine_end_def falsy_def
      prunedCount_def newEntry_def dynamicMessage_def newAccuracy_def take_Cons')

text \<open>
  Scenario A with a response that lists two columns only: the message still names the
  three columns pruned from the ten of the report in force.
\<close>

theorem prunedCount_from_previous_report_witness:
  "file' scenario_A = Some ''houses.csv'' \<and> selectedTarget scenario_A = Some ''price'' \<and>
   ''price'' \<noteq> [] \<and>
   length (column_diagnostics (analysis scenario_A_response)) = 2 \<and>
   gt_zero (toNumber (diffOf (newAccuracy scenario_A_response)
     (prevAccuracy (report scenario_A)))) \<and>
   message (hd (insights (handleRefine sample_clock (Resolved scenario_A_response) scenario_A))) =
     ''Optimization successful. Pruning 3 noisy vectors enhanced the focus on primary predictors.''"
proof -
  have h: "file' scenario_A = Some ''houses.csv''" "selectedTarget scenario_A = Some ''price''"
    "''price'' \<noteq> []"
    "report scenario_A = Some (sample_report (Numeric 82)
        [''age'', ''rooms'', ''area'', ''floor'', ''year'', ''garage'', ''garden'', ''zip'',
         ''owner'', ''price''])"
    by (simp_all add: scenario_A_def)
  have d: "diffOf (newAccuracy scenario_A_response) (prevAccuracy (report scenario_A)) = ''2.5''"
    by (simp add: h newAccuracy_def prevAccuracy_def scenario_A_facts round_double_samples
        diffOf_scenario_A)
  have n: "int (length (column_diagnostics (analysis (sample_report (Numeric 82)
        [''age'', ''rooms'', ''area'', ''floor'', ''year'', ''garage'', ''garden'', ''zip'',
         ''owner'', ''price''])))) - int (length (selectedCols scenario_A)) = 3"
    by (simp add: scenario_A_facts scenario_A_def)
  have two: "length (column_diagnostics (analysis scenario_A_response)) = 2"
    by (simp add: scenario_A_response_def scenario_A_facts)
  show ?thesis
    using prunedCount_from_previous_report [OF h, of sample_clock scenario_A_response]
      h d n two
    by (simp add: toNumber_scenario_A scenario_A_entry)
qed

end
